theory Spec2Isabelle
  imports Main "HOL-Library.Word"
begin

section \<open>Data model of the webserver package\<close>

text \<open>
  \<^verbatim>\<open>time.Duration\<close> is a signed 64-bit count of nanoseconds; it is read with \<open>sint\<close>.
\<close>

type_synonym Duration = "64 word"

definition Second :: Duration where
  "Second = 1000000000"

definition defaultTimeout :: Duration where
  "defaultTimeout = 3 * Second"

definition defaultRequestTimeout :: Duration where
  "defaultRequestTimeout = 1 * Second"

definition defaultShutdownTaskTimeout :: Duration where
  "defaultShutdownTaskTimeout = 10 * Second"

subsection \<open>Errors\<close>

text \<open>
  A Go \<^verbatim>\<open>error\<close> is an \<open>error option\<close>: \<open>None\<close> is \<^verbatim>\<open>nil\<close>. The constructors are
  the error values the package can meet: the sentinels \<^verbatim>\<open>http.ErrServerClosed\<close>,
  \<^verbatim>\<open>context.DeadlineExceeded\<close> and \<^verbatim>\<open>os.ErrDeadlineExceeded\<close>, any other error (its text
  and what its \<^verbatim>\<open>Timeout()\<close> method answers, \<open>False\<close> when it has none), and a
  \<^verbatim>\<open>customerror\<close> value: message, the status code given with \<^verbatim>\<open>WithStatusCode\<close> and
  the cause given with \<^verbatim>\<open>WithError\<close>; and the validator's error, the list of
  (field, failed tag) pairs.
\<close>

datatype error =
    ErrServerClosed
  | DeadlineExceeded
  | ErrDeadlineExceeded
  | OtherError string bool
  | CustomError string "nat option" "error option"
  | ValidationErrors "(string \<times> string) list"

text \<open>\<^verbatim>\<open>customerror.NewFailedToError(message, opts...)\<close> prefixes the message with "failed to".\<close>

definition NewFailedToError :: "string \<Rightarrow> nat option \<Rightarrow> error option \<Rightarrow> error" where
  "NewFailedToError message statusCode cause = CustomError (''failed to '' @ message) statusCode cause"

definition StatusRequestTimeout :: nat where
  "StatusRequestTimeout = 408"

definition StatusServiceUnavailable :: nat where
  "StatusServiceUnavailable = 503"

definition StatusOK :: nat where
  "StatusOK = 200"

definition ErrRequesTimeout :: error where
  "ErrRequesTimeout = NewFailedToError ''finish request, timed out'' (Some StatusRequestTimeout) None"

text \<open>The \<^verbatim>\<open>Error()\<close> text of an error value.\<close>

fun error_Error :: "error \<Rightarrow> string" where
  "error_Error ErrServerClosed = ''http: Server closed''"
| "error_Error DeadlineExceeded = ''context deadline exceeded''"
| "error_Error ErrDeadlineExceeded = ''i/o timeout''"
| "error_Error (OtherError msg _) = msg"
| "error_Error (CustomError msg _ None) = msg"
| "error_Error (CustomError msg _ (Some e)) = msg @ ''. Original Error: '' @ error_Error e"
| "error_Error (ValidationErrors fes) =
     concat (map (\<lambda>(field, tag). ''validation for '' @ field @ '' failed on the '' @ tag @ '' tag; '') fes)"

text \<open>
  \<^verbatim>\<open>errors.Is(err, target)\<close> for a non-nil target: \<open>err\<close> or something in its
  \<^verbatim>\<open>Unwrap\<close> chain equals the target. Only a \<^verbatim>\<open>customerror\<close> value unwraps, to its cause.
\<close>

fun chain_Is :: "error \<Rightarrow> error \<Rightarrow> bool" where
  "chain_Is (CustomError m c (Some e)) target =
     (CustomError m c (Some e) = target \<or> chain_Is e target)"
| "chain_Is err target = (err = target)"

definition errors_Is :: "error option \<Rightarrow> error \<Rightarrow> bool" where
  "errors_Is err target = (case err of None \<Rightarrow> False | Some e \<Rightarrow> chain_Is e target)"

text \<open>\<^verbatim>\<open>os.IsTimeout(err)\<close>: the error itself has a \<^verbatim>\<open>Timeout()\<close> method that answers true.\<close>

definition os_IsTimeout :: "error option \<Rightarrow> bool" where
  "os_IsTimeout err =
     (case err of
        None \<Rightarrow> False
      | Some DeadlineExceeded \<Rightarrow> True
      | Some ErrDeadlineExceeded \<Rightarrow> True
      | Some (OtherError _ t) \<Rightarrow> t
      | Some _ \<Rightarrow> False)"

definition isTimeoutError :: "error option \<Rightarrow> bool" where
  "isTimeoutError err =
     (if errors_Is err DeadlineExceeded \<or> errors_Is err ErrDeadlineExceeded \<or> os_IsTimeout err
      then True else False)"

subsection \<open>The server configuration\<close>

record Logging =
  ConsoleLevel :: string
  RequestLevel :: string
  Filepath :: string

record Timeout =
  ReadTimeout :: Duration
  RequestTimeout :: Duration
  ShutdownInFlightTimeout :: Duration
  ShutdownTaskTimeout :: Duration
  WriteTimeout :: Duration

text \<open>A \<^verbatim>\<open>handler.Handler\<close> is known by its method and path; a router by what was registered on it.\<close>

record Handler =
  Method :: string
  Path :: string

record Router =
  middlewares :: "string list"
  routes :: "Handler list"

record Server =
  Address :: string
  Name :: string
  EnableMetrics :: bool
  EnableTelemetry :: bool
  Logging :: Logging
  Timeout :: Timeout
  preLoadedHandlers :: "Handler list"
  router :: Router
  telemetry :: "string option"

section \<open>The lifecycle run: \<^verbatim>\<open>Start\<close>\<close>

datatype Signal = Interrupt | SIGTERM

text \<open>
  What \<^verbatim>\<open>Start\<close> and \<^verbatim>\<open>New\<close> do to the world, in order: each call that leaves the
  package is an event, stamped with the logical time (nanoseconds) at which it completed.
  The world keeps the clock, the signals that \<^verbatim>\<open>os/signal\<close> currently relays to a
  channel, and the events so far.
\<close>

datatype event =
    EvListenAndServe string
  | EvNotify "Signal list"
  | EvRecvServerErr "error option"
  | EvRecvSignal Signal
  | EvReset Signal
  | EvSetKeepAlivesEnabled bool
  | EvShutdown Duration "error option"
  | EvClose "error option"
  | EvSleep Duration
  | EvLoggerSetup string string string
  | EvTelemetryNewDefault string
  | EvPublish string

record world =
  now :: int
  relayed :: "Signal set"
  trace :: "(int \<times> event) list"

text \<open>
  What the world answers during one run. \<open>serveResult\<close> is the one value the serve goroutine
  sends on \<^verbatim>\<open>serverErr\<close> (what \<^verbatim>\<open>ListenAndServe\<close> returns); \<open>servedBeforeSelect\<close> says
  whether it is already in the channel when the \<^verbatim>\<open>select\<close> can first proceed, and
  \<open>pendingSignal\<close> is the signal in \<^verbatim>\<open>osSignals\<close> at that moment, if any. \<open>pick\<close> is the
  runtime's pseudo-random choice, consulted only when both cases can proceed.
  \<open>shutdownResult\<close> and \<open>closeResult\<close> are what \<^verbatim>\<open>s.server.Shutdown(ctx)\<close> and
  \<^verbatim>\<open>s.server.Close()\<close> return, \<open>shutdownTook\<close> how long \<^verbatim>\<open>Shutdown\<close> ran.
\<close>

datatype select_case = CaseServerErr | CaseOsSignals

record env =
  serveResult :: "error option"
  servedBeforeSelect :: bool
  pendingSignal :: "Signal option"
  pick :: select_case
  shutdownResult :: "error option"
  shutdownTook :: nat
  closeResult :: "error option"

definition emit :: "event \<Rightarrow> world \<Rightarrow> world" where
  "emit ev w = w\<lparr>trace := trace w @ [(now w, ev)]\<rparr>"

text \<open>
  \<^verbatim>\<open>signal.Notify(c, sigs...)\<close> relays the given signals to the channel instead of their
  default action; \<^verbatim>\<open>signal.Reset(sigs...)\<close> undoes that for the given signals only.
\<close>

definition signal_Notify :: "Signal list \<Rightarrow> world \<Rightarrow> world" where
  "signal_Notify sigs w = emit (EvNotify sigs) (w\<lparr>relayed := relayed w \<union> set sigs\<rparr>)"

definition signal_Reset :: "Signal \<Rightarrow> world \<Rightarrow> world" where
  "signal_Reset sig w = emit (EvReset sig) (w\<lparr>relayed := relayed w - {sig}\<rparr>)"

text \<open>\<^verbatim>\<open>time.Sleep(d)\<close> pauses for \<open>d\<close>; a zero or negative \<open>d\<close> returns at once.\<close>

definition time_Sleep :: "Duration \<Rightarrow> world \<Rightarrow> world" where
  "time_Sleep d w = emit (EvSleep d) (w\<lparr>now := now w + max 0 (sint d)\<rparr>)"

definition server_SetKeepAlivesEnabled :: "bool \<Rightarrow> world \<Rightarrow> world" where
  "server_SetKeepAlivesEnabled b w = emit (EvSetKeepAlivesEnabled b) w"

definition server_Shutdown :: "env \<Rightarrow> Duration \<Rightarrow> world \<Rightarrow> error option \<times> world" where
  "server_Shutdown e budget w =
     (shutdownResult e,
      emit (EvShutdown budget (shutdownResult e)) (w\<lparr>now := now w + int (shutdownTook e)\<rparr>))"

definition server_Close :: "env \<Rightarrow> world \<Rightarrow> error option \<times> world" where
  "server_Close e w = (closeResult e, emit (EvClose (closeResult e)) w)"

text \<open>
  The \<^verbatim>\<open>select\<close> over \<^verbatim>\<open>serverErr\<close> and \<^verbatim>\<open>osSignals\<close>: a case that can proceed is taken;
  when both can, the runtime picks one; when neither ever can, the statement blocks for ever
  (\<open>None\<close>).
\<close>

definition select :: "env \<Rightarrow> select_case option" where
  "select e =
     (case (servedBeforeSelect e, pendingSignal e) of
        (True, Some _) \<Rightarrow> Some (pick e)
      | (True, None) \<Rightarrow> Some CaseServerErr
      | (False, Some _) \<Rightarrow> Some CaseOsSignals
      | (False, None) \<Rightarrow> None)"

text \<open>
  The body of the \<^verbatim>\<open>if err := s.server.Shutdown(ctx); err != nil\<close> block, for the error
  \<open>err\<close> that \<^verbatim>\<open>Shutdown\<close> returned. \<open>shutdownErr\<close> is the variable declared just
  before, still \<^verbatim>\<open>nil\<close> when the block is entered; the source tests it, not \<open>err\<close>.
\<close>

definition shutdownFailed :: "env \<Rightarrow> error \<Rightarrow> world \<Rightarrow> error option \<times> world" where
  "shutdownFailed e err w =
     (let shutdownErr = None;
          shutdownErr =
            (if isTimeoutError shutdownErr
             then Some (NewFailedToError ''gracefully shutdown, timeout reached. Stopping hard...''
                          None (Some err))
             else Some err);
          (cerr, w') = server_Close e w
      in case cerr of
           Some err \<Rightarrow> (Some (NewFailedToError ''hardly shutdown the server'' None (Some err)), w')
         | None \<Rightarrow> (shutdownErr, w'))"

text \<open>
  The \<^verbatim>\<open>case sig := <-osSignals\<close> branch. The logging calls and the deferred
  \<^verbatim>\<open>cancel\<close> of the context change nothing the run returns, and are left out. The last
  receive finds the serve goroutine's value: \<^verbatim>\<open>ListenAndServe\<close> returns once
  \<^verbatim>\<open>Shutdown\<close> has been called.
\<close>

definition onSignal :: "Server \<Rightarrow> env \<Rightarrow> Signal \<Rightarrow> world \<Rightarrow> error option \<times> world" where
  "onSignal s e sig w =
     (let w = emit (EvRecvSignal sig) w;
          w = signal_Reset sig w;
          w = server_SetKeepAlivesEnabled False w;
          (err, w) = server_Shutdown e (ShutdownInFlightTimeout (Timeout s)) w;
          (shutdownErr, w) =
            (case err of None \<Rightarrow> (None, w) | Some err \<Rightarrow> shutdownFailed e err w)
      in case shutdownErr of
           Some x \<Rightarrow> (Some x, w)
         | None \<Rightarrow>
             (let w = time_Sleep (ShutdownTaskTimeout (Timeout s)) w
              in (serveResult e, emit (EvRecvServerErr (serveResult e)) w)))"

text \<open>
  \<^verbatim>\<open>Start\<close>: \<open>None\<close> when the run never returns, otherwise the returned error and the
  world. The serve goroutine is launched on the server's address, both termination signals
  are subscribed, and the \<^verbatim>\<open>select\<close> decides the rest.
\<close>

definition Start :: "Server \<Rightarrow> env \<Rightarrow> world \<Rightarrow> (error option \<times> world) option" where
  "Start s e w =
     (let w = emit (EvListenAndServe (Address s)) w;
          w = signal_Notify [Interrupt, SIGTERM] w
      in case select e of
           None \<Rightarrow> None
         | Some CaseServerErr \<Rightarrow> Some (serveResult e, emit (EvRecvServerErr (serveResult e)) w)
         | Some CaseOsSignals \<Rightarrow>
             (case pendingSignal e of
                None \<Rightarrow> None
              | Some sig \<Rightarrow> Some (onSignal s e sig w)))"

definition world0 :: world where
  "world0 = \<lparr>now = 0, relayed = {}, trace = []\<rparr>"

definition outcome :: "(error option \<times> world) option \<Rightarrow> error option option" where
  "outcome r = map_option fst r"

section \<open>The per-request deadline: \<^verbatim>\<open>http.TimeoutHandler\<close>\<close>

text \<open>
  \<^verbatim>\<open>Start\<close> serves every request through
  \<^verbatim>\<open>http.TimeoutHandler(s.GetRouter(), s.Timeout.RequestTimeout, ErrRequesTimeout.Error())\<close>.
  The wrapped handler is described by what it does to its \<^verbatim>\<open>ResponseWriter\<close>, in order,
  and by the time (nanoseconds after the request began) at which it returns, \<open>None\<close> when
  it never does.
\<close>

record Response =
  statusCode :: nat
  body :: string

datatype hop = WriteHeader nat | Write string

record handler_run =
  ops :: "hop list"
  finishedAt :: "int option"

text \<open>
  The handler writes into a buffering writer: the first \<^verbatim>\<open>WriteHeader\<close> fixes the status,
  a \<^verbatim>\<open>Write\<close> before any \<^verbatim>\<open>WriteHeader\<close> fixes it to 200, and the body accumulates.
\<close>

fun bufferOps :: "hop list \<Rightarrow> nat option \<Rightarrow> string \<Rightarrow> nat option \<times> string" where
  "bufferOps [] code buf = (code, buf)"
| "bufferOps (WriteHeader c # rest) code buf =
     bufferOps rest (case code of None \<Rightarrow> Some c | Some c0 \<Rightarrow> Some c0) buf"
| "bufferOps (Write b # rest) code buf =
     bufferOps rest (case code of None \<Rightarrow> Some StatusOK | Some c0 \<Rightarrow> Some c0) (buf @ b)"

definition flushBuffer :: "hop list \<Rightarrow> Response" where
  "flushBuffer hs =
     (case bufferOps hs None [] of
        (None, buf) \<Rightarrow> \<lparr>statusCode = StatusOK, body = buf\<rparr>
      | (Some c, buf) \<Rightarrow> \<lparr>statusCode = c, body = buf\<rparr>)"

text \<open>
  \<^verbatim>\<open>http.TimeoutHandler(h, dt, msg)\<close>: when \<open>h\<close> returns within \<open>dt\<close> its buffered
  response is sent; otherwise the wrapper answers 503 Service Unavailable with \<open>msg\<close> as
  the body, and the buffer, with whatever \<open>h\<close> writes into it then or later, is never sent.
\<close>

definition TimeoutHandler :: "Duration \<Rightarrow> string \<Rightarrow> handler_run \<Rightarrow> Response" where
  "TimeoutHandler dt msg h =
     (case finishedAt h of
        None \<Rightarrow> \<lparr>statusCode = StatusServiceUnavailable, body = msg\<rparr>
      | Some t \<Rightarrow>
          if t < sint dt then flushBuffer (ops h)
          else \<lparr>statusCode = StatusServiceUnavailable, body = msg\<rparr>)"

text \<open>The \<^verbatim>\<open>http.Server\<close> value that \<^verbatim>\<open>Start\<close> builds, and the response it gives one request.\<close>

record httpServer =
  Addr :: string
  HandlerTimeout :: Duration
  HandlerTimeoutBody :: string
  serverReadTimeout :: Duration
  serverWriteTimeout :: Duration

definition Start_server :: "Server \<Rightarrow> httpServer" where
  "Start_server s =
     \<lparr>Addr = Address s,
      HandlerTimeout = RequestTimeout (Timeout s),
      HandlerTimeoutBody = error_Error ErrRequesTimeout,
      serverReadTimeout = ReadTimeout (Timeout s),
      serverWriteTimeout = WriteTimeout (Timeout s)\<rparr>"

definition ServeHTTP :: "httpServer \<Rightarrow> handler_run \<Rightarrow> Response" where
  "ServeHTTP srv h = TimeoutHandler (HandlerTimeout srv) (HandlerTimeoutBody srv) h"

section \<open>Construction: options, \<^verbatim>\<open>New\<close> and \<^verbatim>\<open>NewBasic\<close>\<close>

text \<open>An \<^verbatim>\<open>Option\<close> is a function that updates the server under construction.\<close>

type_synonym Option = "Server \<Rightarrow> Server"

definition addHandler :: "Router \<Rightarrow> Handler list \<Rightarrow> Router" where
  "addHandler r hs = r\<lparr>routes := routes r @ hs\<rparr>"

definition router_Use :: "string \<Rightarrow> Router \<Rightarrow> Router" where
  "router_Use m r = r\<lparr>middlewares := middlewares r @ [m]\<rparr>"

definition WithTimeout ::
  "Duration \<Rightarrow> Duration \<Rightarrow> Duration \<Rightarrow> Duration \<Rightarrow> Duration \<Rightarrow> Option" where
  "WithTimeout read request inflight tasks write s =
     s\<lparr>Timeout :=
         (Timeout s)\<lparr>ReadTimeout := read, RequestTimeout := request,
                     ShutdownInFlightTimeout := inflight, ShutdownTaskTimeout := tasks,
                     WriteTimeout := write\<rparr>\<rparr>"

definition WithTelemetry :: "string \<Rightarrow> Option" where
  "WithTelemetry t s = s\<lparr>telemetry := Some t\<rparr>"

definition WithoutTelemetry :: Option where
  "WithoutTelemetry s = s\<lparr>EnableTelemetry := False\<rparr>"

definition WithoutMetrics :: Option where
  "WithoutMetrics s = s\<lparr>EnableMetrics := False\<rparr>"

definition WithLoggingOptions :: "string \<Rightarrow> string \<Rightarrow> string \<Rightarrow> Option" where
  "WithLoggingOptions console request filepath s =
     s\<lparr>Logging := (Logging s)\<lparr>ConsoleLevel := console, RequestLevel := request,
                                Filepath := filepath\<rparr>\<rparr>"

definition WithoutLogging :: Option where
  "WithoutLogging s =
     s\<lparr>Logging := (Logging s)\<lparr>ConsoleLevel := ''none'', RequestLevel := ''none'',
                                Filepath := []\<rparr>\<rparr>"

definition WithPreLoadedHandlers :: "Handler list \<Rightarrow> Option" where
  "WithPreLoadedHandlers handlers s = s\<lparr>router := addHandler (router s) handlers\<rparr>"

definition WithoutPreLoadedHandlers :: Option where
  "WithoutPreLoadedHandlers s = s\<lparr>preLoadedHandlers := []\<rparr>"

definition handler_OK :: Handler where
  "handler_OK = \<lparr>Method = ''GET'', Path = ''/''\<rparr>"

definition handler_Liveness :: Handler where
  "handler_Liveness = \<lparr>Method = ''GET'', Path = ''/liveness''\<rparr>"

definition handler_Stop :: Handler where
  "handler_Stop = \<lparr>Method = ''GET'', Path = ''/stop''\<rparr>"

definition handler_ExpVar :: Handler where
  "handler_ExpVar = \<lparr>Method = ''GET'', Path = ''/debug/vars''\<rparr>"

text \<open>
  What \<^verbatim>\<open>New\<close> takes from outside the package: whether \<^verbatim>\<open>logger.Setup\<close> returns for
  the given level names and file path (it ends the process on a level name it does not
  know), what the standard-output trace exporter's constructor returns inside
  \<^verbatim>\<open>telemetry.NewDefault\<close>, and the validator's \<^verbatim>\<open>tcp_addr\<close> test.
\<close>

record platform =
  loggerAccepts :: "string \<Rightarrow> string \<Rightarrow> string \<Rightarrow> bool"
  exporterError :: "error option"
  isTCPAddr :: "string \<Rightarrow> bool"

text \<open>\<^verbatim>\<open>telemetry.NewDefault(name)\<close>: fails exactly when the exporter cannot be built.\<close>

definition telemetry_NewDefault :: "platform \<Rightarrow> string \<Rightarrow> error + string" where
  "telemetry_NewDefault pf name =
     (case exporterError pf of Some err \<Rightarrow> Inl err | None \<Rightarrow> Inr name)"

subsection \<open>Validation\<close>

text \<open>
  Each field is checked against its \<^verbatim>\<open>validate\<close> tag, tag by tag, and reports the first
  tag that fails. \<^verbatim>\<open>required\<close>: not the zero value; \<^verbatim>\<open>gte=3\<close> on a string: at least three
  characters; \<^verbatim>\<open>oneof\<close>: one of the listed words; \<^verbatim>\<open>omitempty\<close>: an empty value passes;
  \<^verbatim>\<open>ltfield=ReadTimeout\<close>: less than the sibling field, as signed integers.
\<close>

definition levelNames :: "string list" where
  "levelNames = [''none'', ''fatal'', ''error'', ''info'', ''warn'', ''debug'', ''trace'']"

definition validateLevel :: "string \<Rightarrow> string \<Rightarrow> (string \<times> string) list" where
  "validateLevel field v =
     (if v = [] then [(field, ''required'')]
      else if length v < 3 then [(field, ''gte'')]
      else if v \<notin> set levelNames then [(field, ''oneof'')]
      else [])"

definition validateLogging :: "Logging \<Rightarrow> (string \<times> string) list" where
  "validateLogging l =
     validateLevel ''ConsoleLevel'' (ConsoleLevel l) @
     validateLevel ''RequestLevel'' (RequestLevel l) @
     (if Filepath l = [] then []
      else if length (Filepath l) < 3 then [(''Filepath'', ''gte'')]
      else [])"

text \<open>
  Modelled from the spec: the budget rules of \<^verbatim>\<open>validation.ValidateStruct\<close>, which is
  missing from the sources. The spec has "Invariant: request < read. All five are
  positive; zero is invalid", "validated at construction". A duration that is not positive
  fails on its own field; \<open>RequestTimeout\<close>, once positive, is held against the tag
  \<^verbatim>\<open>ltfield=ReadTimeout\<close> that \<^verbatim>\<open>webserver.go\<close> declares on it.
\<close>

definition positive :: "string \<Rightarrow> Duration \<Rightarrow> (string \<times> string) list" where
  "positive field d = (if 0 < sint d then [] else [(field, ''gt'')])"

definition validateTimeout :: "Timeout \<Rightarrow> (string \<times> string) list" where
  "validateTimeout t =
     positive ''ReadTimeout'' (ReadTimeout t) @
     (if \<not> 0 < sint (RequestTimeout t) then [(''RequestTimeout'', ''gt'')]
      else if sint (RequestTimeout t) < sint (ReadTimeout t) then []
      else [(''RequestTimeout'', ''ltfield'')]) @
     positive ''ShutdownInFlightTimeout'' (ShutdownInFlightTimeout t) @
     positive ''ShutdownTaskTimeout'' (ShutdownTaskTimeout t) @
     positive ''WriteTimeout'' (WriteTimeout t)"

text \<open>
  Modelled from the spec: \<^verbatim>\<open>validation.ValidateStruct\<close> (package
  \<^verbatim>\<open>internal/validation\<close>) is missing from the sources. The spec has the configuration
  "validated once" at construction, an invalid Timeout Budget or an invalid address being
  a "configuration error". The budget is held against the spec's rules above; address,
  name and logging against the \<^verbatim>\<open>validate\<close> tags that \<^verbatim>\<open>webserver.go\<close> declares on
  them, in declaration order. The result is \<^verbatim>\<open>nil\<close> when no field fails.
\<close>

definition ValidateStruct :: "platform \<Rightarrow> Server \<Rightarrow> error option" where
  "ValidateStruct pf s =
     (let fes =
            (if isTCPAddr pf (Address s) then [] else [(''Address'', ''tcp_addr'')]) @
            (if Name s = [] then [(''Name'', ''required'')]
             else if length (Name s) < 3 then [(''Name'', ''gte'')]
             else []) @
            validateLogging (Logging s) @
            validateTimeout (Timeout s)
      in if fes = [] then None else Some (ValidationErrors fes))"

subsection \<open>The factories\<close>

datatype New_result = ProcessEnded | Failed error | Built Server

definition newServer :: "string \<Rightarrow> string \<Rightarrow> Server" where
  "newServer name address =
     \<lparr>Address = address,
      Name = name,
      EnableMetrics = True,
      EnableTelemetry = True,
      Logging = \<lparr>ConsoleLevel = ''error'', RequestLevel = ''error'', Filepath = []\<rparr>,
      Timeout =
        \<lparr>ReadTimeout = defaultTimeout,
         RequestTimeout = defaultRequestTimeout,
         ShutdownInFlightTimeout = defaultTimeout,
         ShutdownTaskTimeout = defaultShutdownTaskTimeout,
         WriteTimeout = defaultTimeout\<rparr>,
      preLoadedHandlers = [handler_OK, handler_Liveness, handler_Stop],
      router = \<lparr>middlewares = [], routes = []\<rparr>,
      telemetry = None\<rparr>"

text \<open>The loop \<^verbatim>\<open>for _, opt := range opts { opt(s) }\<close>.\<close>

fun processOptions :: "Option list \<Rightarrow> Server \<Rightarrow> Server" where
  "processOptions [] s = s"
| "processOptions (opt # opts) s = processOptions opts (opt s)"

text \<open>The telemetry block of \<^verbatim>\<open>New\<close>: an error (left) ends the construction.\<close>

definition setupTelemetry :: "platform \<Rightarrow> string \<Rightarrow> Server \<Rightarrow> world \<Rightarrow> error + (Server \<times> world)" where
  "setupTelemetry pf name s w =
     (if EnableTelemetry s then
        (case (if telemetry s = None
               then (case telemetry_NewDefault pf name of
                       Inl err \<Rightarrow> Inl err
                     | Inr t \<Rightarrow> Inr (s\<lparr>telemetry := Some t\<rparr>, emit (EvTelemetryNewDefault name) w))
               else Inr (s, w)) of
           Inl err \<Rightarrow> Inl err
         | Inr (s, w) \<Rightarrow> Inr (s\<lparr>router := router_Use ''otelmux'' (router s)\<rparr>, w))
      else Inr (s, w))"

text \<open>What follows a successful validation: the handlers are loaded, the metrics published.\<close>

definition finishNew :: "Server \<Rightarrow> world \<Rightarrow> Server \<times> world" where
  "finishNew s w =
     (let s = s\<lparr>router := addHandler (router s) (preLoadedHandlers s)\<rparr>
      in if EnableMetrics s
         then (s\<lparr>router := addHandler (router s) [handler_ExpVar]\<rparr>,
               emit (EvPublish ''server'') (emit (EvPublish ''memstats'') (emit (EvPublish ''cmdline'') w)))
         else (s, w))"

definition New :: "platform \<Rightarrow> string \<Rightarrow> string \<Rightarrow> Option list \<Rightarrow> world \<Rightarrow> New_result \<times> world" where
  "New pf name address opts w =
     (let s = processOptions opts (newServer name address);
          l = Logging s
      in if \<not> loggerAccepts pf (ConsoleLevel l) (RequestLevel l) (Filepath l)
         then (ProcessEnded, w)
         else
           (let w = emit (EvLoggerSetup (ConsoleLevel l) (RequestLevel l) (Filepath l)) w;
                s = s\<lparr>router := router_Use ''logger'' (router s)\<rparr>
            in case setupTelemetry pf name s w of
                 Inl err \<Rightarrow> (Failed err, w)
               | Inr (s, w) \<Rightarrow>
                   (case ValidateStruct pf s of
                      Some err \<Rightarrow> (Failed err, w)
                    | None \<Rightarrow> (case finishNew s w of (s, w) \<Rightarrow> (Built s, w)))))"

definition basicOptions :: "Option list" where
  "basicOptions = [WithoutMetrics, WithoutTelemetry, WithoutLogging, WithoutPreLoadedHandlers]"

definition NewBasic :: "platform \<Rightarrow> string \<Rightarrow> string \<Rightarrow> Option list \<Rightarrow> world \<Rightarrow> New_result \<times> world" where
  "NewBasic pf name address opts w =
     (let finalOpts = basicOptions @ opts in New pf name address finalOpts w)"

section \<open>Observing a run\<close>

text \<open>The events a run added to the world, with and without their time stamps.\<close>

definition run_trace :: "world \<Rightarrow> world \<Rightarrow> (int \<times> event) list" where
  "run_trace w w' = drop (length (trace w)) (trace w')"

definition run_events :: "world \<Rightarrow> world \<Rightarrow> event list" where
  "run_events w w' = map snd (run_trace w w')"

definition returned :: "(error option \<times> world) option \<Rightarrow> error option" where
  "returned r = (case r of None \<Rightarrow> None | Some (err, _) \<Rightarrow> err)"

definition worldAfter :: "world \<Rightarrow> (error option \<times> world) option \<Rightarrow> world" where
  "worldAfter w r = (case r of None \<Rightarrow> w | Some (_, w') \<Rightarrow> w')"

fun isShutdown :: "event \<Rightarrow> bool" where
  "isShutdown (EvShutdown _ _) = True"
| "isShutdown _ = False"

fun isClose :: "event \<Rightarrow> bool" where
  "isClose (EvClose _) = True"
| "isClose _ = False"

fun isListen :: "event \<Rightarrow> bool" where
  "isListen (EvListenAndServe _) = True"
| "isListen _ = False"

definition shutdownRan :: "world \<Rightarrow> (error option \<times> world) option \<Rightarrow> bool" where
  "shutdownRan w r = list_ex isShutdown (run_events w (worldAfter w r))"

text \<open>
  What the Go runtime does with a termination signal that arrives: one that
  \<^verbatim>\<open>signal.Notify\<close> relays goes to the channel, any other ends the process.
\<close>

datatype delivery = ProcessExits | SentToChannel

definition deliver :: "world \<Rightarrow> Signal \<Rightarrow> delivery" where
  "deliver w sig = (if sig \<in> relayed w then SentToChannel else ProcessExits)"

fun isBuilt :: "New_result \<Rightarrow> bool" where
  "isBuilt (Built _) = True"
| "isBuilt _ = False"

text \<open>The server a construction built, if it built one.\<close>

fun builtServer :: "New_result \<Rightarrow> Server option" where
  "builtServer (Built srv) = Some srv"
| "builtServer _ = None"

text \<open>A budget of five positive durations.\<close>

definition positiveBudget :: "Timeout \<Rightarrow> bool" where
  "positiveBudget b =
     (0 < sint (ReadTimeout b) \<and> 0 < sint (RequestTimeout b)
      \<and> 0 < sint (ShutdownInFlightTimeout b) \<and> 0 < sint (ShutdownTaskTimeout b)
      \<and> 0 < sint (WriteTimeout b))"

text \<open>
  What \<^verbatim>\<open>New\<close> makes of the server the options left, when it builds one: the logger
  middleware, the telemetry (the default one when enabled and none was given) with its
  middleware, the pre-loaded handlers and the metrics handler.
\<close>

definition assembled :: "string \<Rightarrow> Server \<Rightarrow> Server" where
  "assembled name s =
     s\<lparr>router :=
         \<lparr>middlewares =
            middlewares (router s) @ [''logger''] @
            (if EnableTelemetry s then [''otelmux''] else []),
          routes =
            routes (router s) @ preLoadedHandlers s @
            (if EnableMetrics s then [handler_ExpVar] else [])\<rparr>,
       telemetry :=
         (if EnableTelemetry s \<and> telemetry s = None then Some name else telemetry s)\<rparr>"

subsection \<open>Concrete runs\<close>

definition testServer :: Server where
  "testServer = newServer ''test-server'' ''0.0.0.0:4446''"

definition addressInUse :: error where
  "addressInUse = OtherError ''listen tcp 0.0.0.0:4446: bind: address already in use'' False"

definition closeFailure :: error where
  "closeFailure = OtherError ''close tcp 0.0.0.0:4446: use of closed network connection'' False"

text \<open>One SIGTERM while serving, nothing in flight.\<close>

definition sigtermIdle :: env where
  "sigtermIdle =
     \<lparr>serveResult = Some ErrServerClosed, servedBeforeSelect = False,
      pendingSignal = Some SIGTERM, pick = CaseServerErr,
      shutdownResult = None, shutdownTook = 5000000, closeResult = None\<rparr>"

text \<open>One interrupt while serving, nothing in flight.\<close>

definition sigintIdle :: env where
  "sigintIdle = sigtermIdle\<lparr>pendingSignal := Some Interrupt\<rparr>"

text \<open>One SIGTERM; the drain runs into the deadline; the forced close works.\<close>

definition drainTimesOut :: env where
  "drainTimesOut =
     sigtermIdle\<lparr>shutdownResult := Some DeadlineExceeded, shutdownTook := 3000000000\<rparr>"

text \<open>The same, and the forced close fails as well.\<close>

definition closeFailsToo :: env where
  "closeFailsToo = drainTimesOut\<lparr>closeResult := Some closeFailure\<rparr>"

text \<open>The port is taken: the listener fails at once, no signal.\<close>

definition bindFails :: env where
  "bindFails =
     \<lparr>serveResult = Some addressInUse, servedBeforeSelect = True,
      pendingSignal = None, pick = CaseServerErr,
      shutdownResult = None, shutdownTook = 0, closeResult = None\<rparr>"

text \<open>The bind failure and an interrupt are both there; the runtime picks the signal.\<close>

definition bindFailsAndSignal :: env where
  "bindFailsAndSignal = bindFails\<lparr>pendingSignal := Some Interrupt, pick := CaseOsSignals\<rparr>"

text \<open>The closed sentinel and an interrupt are both there; the runtime picks the listener.\<close>

definition closedAndSignal :: env where
  "closedAndSignal =
     bindFails\<lparr>serveResult := Some ErrServerClosed, pendingSignal := Some Interrupt\<rparr>"

text \<open>The \<^verbatim>\<open>/slow\<close> handler of the package's test: sleeps three seconds, then answers 200.\<close>

definition slowHandler :: handler_run where
  "slowHandler = \<lparr>ops = [WriteHeader 200, Write ''OK''], finishedAt = Some 3000000000\<rparr>"

definition okPlatform :: platform where
  "okPlatform =
     \<lparr>loggerAccepts = (\<lambda>console request filepath. console \<in> set levelNames \<and> request \<in> set levelNames),
      exporterError = None,
      isTCPAddr = (\<lambda>a. a = ''0.0.0.0:4446'')\<rparr>"

text \<open>The part of a configuration that \<^verbatim>\<open>New\<close> checks besides the timeout budget.\<close>

definition restAccepted :: "platform \<Rightarrow> Server \<Rightarrow> bool" where
  "restAccepted pf s =
     (loggerAccepts pf (ConsoleLevel (Logging s)) (RequestLevel (Logging s)) (Filepath (Logging s))
      \<and> (EnableTelemetry s \<and> telemetry s = None \<longrightarrow> exporterError pf = None)
      \<and> isTCPAddr pf (Address s)
      \<and> 3 \<le> length (Name s)
      \<and> validateLogging (Logging s) = [])"

section \<open>The paths of a run\<close>

text \<open>A signal case is only ever taken with a signal in hand.\<close>

lemma select_signal:
  "select e = Some CaseOsSignals \<Longrightarrow> \<exists>sig. pendingSignal e = Some sig"
  by (auto simp: select_def split: bool.splits option.splits)

text \<open>
  The block after a failed \<^verbatim>\<open>Shutdown\<close>, computed: the test on the still-\<^verbatim>\<open>nil\<close>
  \<open>shutdownErr\<close> is always false, so the error is never wrapped as a graceful time-out.
\<close>

lemma shutdownFailed_eq:
  "shutdownFailed e err w =
     ((case closeResult e of
         Some cerr \<Rightarrow> Some (NewFailedToError ''hardly shutdown the server'' None (Some cerr))
       | None \<Rightarrow> Some err),
      w\<lparr>trace := trace w @ [(now w, EvClose (closeResult e))]\<rparr>)"
  by (simp add: shutdownFailed_def Let_def server_Close_def emit_def isTimeoutError_def
      errors_Is_def os_IsTimeout_def split: option.splits)

text \<open>The three ways through \<^verbatim>\<open>Start\<close>, with the world each leaves behind.\<close>

lemma Start_clean:
  assumes "select e = Some CaseOsSignals" "pendingSignal e = Some sig" "shutdownResult e = None"
  shows "Start s e w = Some (serveResult e,
     \<lparr>now = now w + int (shutdownTook e) + max 0 (sint (ShutdownTaskTimeout (Timeout s))),
      relayed = (relayed w \<union> {Interrupt, SIGTERM}) - {sig},
      trace = trace w @
        [(now w, EvListenAndServe (Address s)),
         (now w, EvNotify [Interrupt, SIGTERM]),
         (now w, EvRecvSignal sig),
         (now w, EvReset sig),
         (now w, EvSetKeepAlivesEnabled False),
         (now w + int (shutdownTook e), EvShutdown (ShutdownInFlightTimeout (Timeout s)) None),
         (now w + int (shutdownTook e) + max 0 (sint (ShutdownTaskTimeout (Timeout s))),
          EvSleep (ShutdownTaskTimeout (Timeout s))),
         (now w + int (shutdownTook e) + max 0 (sint (ShutdownTaskTimeout (Timeout s))),
          EvRecvServerErr (serveResult e))]\<rparr>)"
  using assms
  by (simp add: Start_def onSignal_def Let_def emit_def signal_Notify_def signal_Reset_def
      server_SetKeepAlivesEnabled_def server_Shutdown_def time_Sleep_def insert_commute)

lemma Start_failed:
  assumes "select e = Some CaseOsSignals" "pendingSignal e = Some sig" "shutdownResult e = Some err"
  shows "Start s e w = Some
     ((case closeResult e of
         Some cerr \<Rightarrow> Some (NewFailedToError ''hardly shutdown the server'' None (Some cerr))
       | None \<Rightarrow> Some err),
     \<lparr>now = now w + int (shutdownTook e),
      relayed = (relayed w \<union> {Interrupt, SIGTERM}) - {sig},
      trace = trace w @
        [(now w, EvListenAndServe (Address s)),
         (now w, EvNotify [Interrupt, SIGTERM]),
         (now w, EvRecvSignal sig),
         (now w, EvReset sig),
         (now w, EvSetKeepAlivesEnabled False),
         (now w + int (shutdownTook e), EvShutdown (ShutdownInFlightTimeout (Timeout s)) (Some err)),
         (now w + int (shutdownTook e), EvClose (closeResult e))]\<rparr>)"
  using assms
  by (simp add: Start_def onSignal_def Let_def emit_def signal_Notify_def signal_Reset_def
      server_SetKeepAlivesEnabled_def server_Shutdown_def shutdownFailed_eq insert_commute
      split: option.splits)

lemma Start_listener:
  assumes "select e = Some CaseServerErr"
  shows "Start s e w = Some (serveResult e,
     \<lparr>now = now w,
      relayed = relayed w \<union> {Interrupt, SIGTERM},
      trace = trace w @
        [(now w, EvListenAndServe (Address s)),
         (now w, EvNotify [Interrupt, SIGTERM]),
         (now w, EvRecvServerErr (serveResult e))]\<rparr>)"
  using assms
  by (simp add: Start_def Let_def emit_def signal_Notify_def insert_commute)


section \<open>Clean stop\<close>

text \<open>
  C1, as stated, fails: one SIGTERM with nothing in flight, \<^verbatim>\<open>Shutdown\<close> returning
  \<^verbatim>\<open>nil\<close>; the run returns the value it receives from \<^verbatim>\<open>serverErr\<close>, the non-nil
  \<^verbatim>\<open>http.ErrServerClosed\<close>, not \<^verbatim>\<open>nil\<close>.
\<close>

theorem Start_clean_stop_not_nil:
  "select sigtermIdle = Some CaseOsSignals \<and> shutdownResult sigtermIdle = None
   \<and> outcome (Start testServer sigtermIdle world0) = Some (Some ErrServerClosed)
   \<and> outcome (Start testServer sigtermIdle world0) \<noteq> Some None"
  by (simp add: outcome_def Start_clean [where sig = SIGTERM] select_def sigtermIdle_def)

text \<open>
  C1, amended: when the signal case is taken and \<^verbatim>\<open>Shutdown\<close> returns \<^verbatim>\<open>nil\<close>, the run
  resets the signal, disables keep-alives, shuts down, sleeps \<open>ShutdownTaskTimeout\<close> and
  then returns, unchanged, the value received from \<^verbatim>\<open>serverErr\<close>; it returns no earlier
  than \<open>ShutdownTaskTimeout\<close> after \<^verbatim>\<open>Shutdown\<close> completed.
\<close>

theorem Start_clean_stop:
  assumes "select e = Some CaseOsSignals" and "shutdownResult e = None"
  shows "\<exists>w' sig. Start s e w = Some (serveResult e, w')
     \<and> pendingSignal e = Some sig
     \<and> run_events w w' =
         [EvListenAndServe (Address s), EvNotify [Interrupt, SIGTERM], EvRecvSignal sig,
          EvReset sig, EvSetKeepAlivesEnabled False,
          EvShutdown (ShutdownInFlightTimeout (Timeout s)) None,
          EvSleep (ShutdownTaskTimeout (Timeout s)), EvRecvServerErr (serveResult e)]
     \<and> (\<forall>t ev. (t, ev) \<in> set (run_trace w w') \<and> isShutdown ev
           \<longrightarrow> t + sint (ShutdownTaskTimeout (Timeout s)) \<le> now w')"
proof -
  from assms(1) obtain sig where sig: "pendingSignal e = Some sig"
    using select_signal by blast
  note run = Start_clean [OF assms(1) sig assms(2), of s w]
  show ?thesis
    using sig by (auto simp add: run run_events_def run_trace_def)
qed

theorem Start_clean_stop_witness:
  "select sigtermIdle = Some CaseOsSignals \<and> shutdownResult sigtermIdle = None
   \<and> (\<exists>w'. Start testServer sigtermIdle world0 = Some (Some ErrServerClosed, w')
     \<and> run_events world0 w' =
         [EvListenAndServe ''0.0.0.0:4446'', EvNotify [Interrupt, SIGTERM], EvRecvSignal SIGTERM,
          EvReset SIGTERM, EvSetKeepAlivesEnabled False,
          EvShutdown (3 * Second) None,
          EvSleep (10 * Second), EvRecvServerErr (Some ErrServerClosed)]
     \<and> (\<forall>t ev. (t, ev) \<in> set (run_trace world0 w') \<and> isShutdown ev
           \<longrightarrow> t + 10000000000 \<le> now w'))"
proof -
  have h1: "select sigtermIdle = Some CaseOsSignals"
    by (simp add: select_def sigtermIdle_def)
  have h2: "shutdownResult sigtermIdle = None"
    by (simp add: sigtermIdle_def)
  show ?thesis
    using h1 h2 Start_clean_stop [OF h1 h2, of testServer world0]
    by (simp add: sigtermIdle_def testServer_def newServer_def defaultTimeout_def
        defaultShutdownTaskTimeout_def Second_def)
qed

section \<open>Timed-out shutdown\<close>

text \<open>
  C2: the drain runs into the deadline (\<^verbatim>\<open>Shutdown\<close> returns
  \<^verbatim>\<open>context.DeadlineExceeded\<close>) and the forced close works. The claim wants the returned
  error to be the wrapped one, with the deadline as its cause. The run returns the bare
  \<^verbatim>\<open>context.DeadlineExceeded\<close>: a time-out by \<open>isTimeoutError\<close>, but the source applies
  that test to the still-\<^verbatim>\<open>nil\<close> \<open>shutdownErr\<close> instead of \<open>err\<close>, so the wrapping
  branch is never taken.
\<close>

theorem Start_graceful_timeout_not_wrapped:
  "returned (Start testServer drainTimesOut world0) = Some DeadlineExceeded
   \<and> returned (Start testServer drainTimesOut world0) \<noteq>
       Some (NewFailedToError ''gracefully shutdown, timeout reached. Stopping hard...''
               None (Some DeadlineExceeded))
   \<and> isTimeoutError (Some DeadlineExceeded)"
  by (simp add: returned_def Start_failed [where sig = SIGTERM and err = DeadlineExceeded]
      select_def drainTimesOut_def sigtermIdle_def NewFailedToError_def isTimeoutError_def
      errors_Is_def)

text \<open>
  C3, as stated, fails: the drain times out and the forced close fails too; the returned
  error has the close failure in its chain and nothing of the time-out.
\<close>

theorem Start_hard_close_failure_loses_timeout:
  "shutdownResult closeFailsToo = Some DeadlineExceeded
   \<and> closeResult closeFailsToo = Some closeFailure
   \<and> returned (Start testServer closeFailsToo world0) =
       Some (CustomError ''failed to hardly shutdown the server'' None (Some closeFailure))
   \<and> errors_Is (returned (Start testServer closeFailsToo world0)) closeFailure
   \<and> \<not> errors_Is (returned (Start testServer closeFailsToo world0)) DeadlineExceeded
   \<and> \<not> isTimeoutError (returned (Start testServer closeFailsToo world0))"
  by (simp add: returned_def Start_failed [where sig = SIGTERM and err = DeadlineExceeded]
      select_def closeFailsToo_def drainTimesOut_def sigtermIdle_def NewFailedToError_def
      isTimeoutError_def errors_Is_def os_IsTimeout_def closeFailure_def)

text \<open>
  C3, amended: when \<^verbatim>\<open>Shutdown\<close> fails and the forced close fails as well, the run
  returns one wrapped error, "failed to hardly shutdown the server", whose only cause is the
  close failure: \<^verbatim>\<open>errors.Is\<close> finds in it that error itself and what the close failure
  carries, nothing else.
\<close>

theorem Start_hard_close_failure:
  assumes "select e = Some CaseOsSignals"
    and "shutdownResult e = Some err" and "closeResult e = Some cerr"
  shows "returned (Start s e w) =
           Some (NewFailedToError ''hardly shutdown the server'' None (Some cerr))
     \<and> (\<forall>target. errors_Is (returned (Start s e w)) target \<longleftrightarrow>
           target = NewFailedToError ''hardly shutdown the server'' None (Some cerr)
           \<or> chain_Is cerr target)"
proof -
  from assms(1) obtain sig where sig: "pendingSignal e = Some sig"
    using select_signal by blast
  show ?thesis
    by (simp add: returned_def Start_failed [OF assms(1) sig assms(2)] assms(3)
        errors_Is_def NewFailedToError_def eq_commute)
qed

theorem Start_hard_close_failure_witness:
  "select closeFailsToo = Some CaseOsSignals
   \<and> shutdownResult closeFailsToo = Some DeadlineExceeded
   \<and> closeResult closeFailsToo = Some closeFailure
   \<and> returned (Start testServer closeFailsToo world0) =
           Some (NewFailedToError ''hardly shutdown the server'' None (Some closeFailure))
   \<and> (\<forall>target. errors_Is (returned (Start testServer closeFailsToo world0)) target \<longleftrightarrow>
           target = NewFailedToError ''hardly shutdown the server'' None (Some closeFailure)
           \<or> chain_Is closeFailure target)"
proof -
  have h1: "select closeFailsToo = Some CaseOsSignals"
    by (simp add: select_def closeFailsToo_def drainTimesOut_def sigtermIdle_def)
  have h2: "shutdownResult closeFailsToo = Some DeadlineExceeded"
    by (simp add: closeFailsToo_def drainTimesOut_def sigtermIdle_def)
  have h3: "closeResult closeFailsToo = Some closeFailure"
    by (simp add: closeFailsToo_def)
  show ?thesis
    using h1 h2 h3 Start_hard_close_failure [OF h1 h2 h3, of testServer world0] by blast
qed

section \<open>The select\<close>

text \<open>
  C4, as stated, fails: with a bind failure and an interrupt both ready, the run may take the
  signal case and go through the graceful shutdown; with the closed sentinel and an
  interrupt both ready, it may take the listener case and return at once. Which happens is
  the runtime's choice, not a function of the listener's value.
\<close>

theorem select_race_not_decided_by_listener_value:
  "servedBeforeSelect bindFailsAndSignal \<and> pendingSignal bindFailsAndSignal = Some Interrupt
   \<and> serveResult bindFailsAndSignal = Some addressInUse
   \<and> shutdownRan world0 (Start testServer bindFailsAndSignal world0)
   \<and> servedBeforeSelect closedAndSignal \<and> pendingSignal closedAndSignal = Some Interrupt
   \<and> serveResult closedAndSignal = Some ErrServerClosed
   \<and> \<not> shutdownRan world0 (Start testServer closedAndSignal world0)"
  by (simp add: shutdownRan_def worldAfter_def run_events_def run_trace_def
      Start_clean [where sig = Interrupt] Start_listener
      select_def bindFailsAndSignal_def closedAndSignal_def bindFails_def world0_def)

text \<open>
  C4, amended: when a listener value and a signal are both ready, the run returns, and the
  case the runtime picks decides alone what it does, whatever the listener's value is:
  picked the listener case, it returns that value at once and no shutdown runs; picked the
  signal case, it resets the signal, disables keep-alives and calls \<^verbatim>\<open>Shutdown\<close>.
\<close>

theorem Start_select_both_ready:
  assumes "servedBeforeSelect e" and "pendingSignal e = Some sig"
  shows "Start s e w \<noteq> None
     \<and> (shutdownRan w (Start s e w) \<longleftrightarrow> pick e = CaseOsSignals)
     \<and> (pick e = CaseServerErr \<longrightarrow>
          returned (Start s e w) = serveResult e
          \<and> run_events w (worldAfter w (Start s e w)) =
              [EvListenAndServe (Address s), EvNotify [Interrupt, SIGTERM],
               EvRecvServerErr (serveResult e)])
     \<and> (pick e = CaseOsSignals \<longrightarrow>
          take 6 (run_events w (worldAfter w (Start s e w))) =
              [EvListenAndServe (Address s), EvNotify [Interrupt, SIGTERM], EvRecvSignal sig,
               EvReset sig, EvSetKeepAlivesEnabled False,
               EvShutdown (ShutdownInFlightTimeout (Timeout s)) (shutdownResult e)])"
proof (cases "pick e")
  case CaseServerErr
  then have sel: "select e = Some CaseServerErr"
    using assms by (simp add: select_def)
  show ?thesis
    using CaseServerErr
    by (simp add: Start_listener [OF sel] shutdownRan_def worldAfter_def returned_def
        run_events_def run_trace_def)
next
  case CaseOsSignals
  then have sel: "select e = Some CaseOsSignals"
    using assms by (simp add: select_def)
  show ?thesis
  proof (cases "shutdownResult e")
    case None
    show ?thesis
      using CaseOsSignals None
      by (simp add: Start_clean [OF sel assms(2) None] shutdownRan_def worldAfter_def
          run_events_def run_trace_def)
  next
    case (Some err)
    show ?thesis
      using CaseOsSignals Some
      by (simp add: Start_failed [OF sel assms(2) Some] shutdownRan_def worldAfter_def
          run_events_def run_trace_def)
  qed
qed

theorem Start_select_both_ready_witness:
  "servedBeforeSelect bindFailsAndSignal \<and> pendingSignal bindFailsAndSignal = Some Interrupt
   \<and> Start testServer bindFailsAndSignal world0 \<noteq> None
   \<and> shutdownRan world0 (Start testServer bindFailsAndSignal world0)
   \<and> pick bindFailsAndSignal = CaseOsSignals
   \<and> take 6 (run_events world0 (worldAfter world0 (Start testServer bindFailsAndSignal world0))) =
        [EvListenAndServe ''0.0.0.0:4446'', EvNotify [Interrupt, SIGTERM], EvRecvSignal Interrupt,
         EvReset Interrupt, EvSetKeepAlivesEnabled False, EvShutdown (3 * Second) None]"
proof -
  have h1: "servedBeforeSelect bindFailsAndSignal"
    by (simp add: bindFailsAndSignal_def bindFails_def)
  have h2: "pendingSignal bindFailsAndSignal = Some Interrupt"
    by (simp add: bindFailsAndSignal_def)
  have h3: "pick bindFailsAndSignal = CaseOsSignals"
    by (simp add: bindFailsAndSignal_def)
  show ?thesis
    using h1 h2 h3 Start_select_both_ready [OF h1 h2, of testServer world0]
    by (simp add: bindFailsAndSignal_def bindFails_def testServer_def newServer_def
        defaultTimeout_def)
qed

section \<open>Signals after the first\<close>

text \<open>
  C5, as stated, fails: after an interrupt was consumed, an interrupt ends the process, but
  SIGTERM is still relayed to the channel that nobody reads any more.
\<close>

theorem Start_other_signal_still_relayed:
  "pendingSignal sigintIdle = Some Interrupt
   \<and> deliver (worldAfter world0 (Start testServer sigintIdle world0)) Interrupt = ProcessExits
   \<and> deliver (worldAfter world0 (Start testServer sigintIdle world0)) SIGTERM = SentToChannel"
  by (simp add: deliver_def worldAfter_def Start_clean [where sig = Interrupt]
      select_def sigintIdle_def sigtermIdle_def world0_def)

text \<open>
  C5, amended: on the signal case the run calls \<^verbatim>\<open>signal.Reset\<close> for the signal it
  received, before keep-alives are disabled and \<^verbatim>\<open>Shutdown\<close> is called; from then on a
  repeat of that same signal ends the process, while the other termination signal stays
  relayed to the channel.
\<close>

theorem Start_resets_consumed_signal:
  assumes "select e = Some CaseOsSignals" and "pendingSignal e = Some sig"
  shows "\<exists>r w'. Start s e w = Some (r, w')
     \<and> take 6 (run_events w w') =
         [EvListenAndServe (Address s), EvNotify [Interrupt, SIGTERM], EvRecvSignal sig,
          EvReset sig, EvSetKeepAlivesEnabled False,
          EvShutdown (ShutdownInFlightTimeout (Timeout s)) (shutdownResult e)]
     \<and> deliver w' sig = ProcessExits
     \<and> (\<forall>sig'. sig' \<noteq> sig \<longrightarrow> deliver w' sig' = SentToChannel)"
proof (cases "shutdownResult e")
  case None
  have other: "sig' = Interrupt \<or> sig' = SIGTERM" for sig'
    by (cases sig') simp_all
  show ?thesis
    using None other
    by (auto simp add: Start_clean [OF assms None] run_events_def run_trace_def deliver_def)
next
  case (Some err)
  have other: "sig' = Interrupt \<or> sig' = SIGTERM" for sig'
    by (cases sig') simp_all
  show ?thesis
    using Some other
    by (auto simp add: Start_failed [OF assms Some] run_events_def run_trace_def deliver_def)
qed

theorem Start_resets_consumed_signal_witness:
  "select sigintIdle = Some CaseOsSignals \<and> pendingSignal sigintIdle = Some Interrupt
   \<and> (\<exists>r w'. Start testServer sigintIdle world0 = Some (r, w')
     \<and> take 6 (run_events world0 w') =
         [EvListenAndServe ''0.0.0.0:4446'', EvNotify [Interrupt, SIGTERM], EvRecvSignal Interrupt,
          EvReset Interrupt, EvSetKeepAlivesEnabled False, EvShutdown (3 * Second) None]
     \<and> deliver w' Interrupt = ProcessExits
     \<and> deliver w' SIGTERM = SentToChannel)"
proof -
  have h1: "select sigintIdle = Some CaseOsSignals"
    by (simp add: select_def sigintIdle_def sigtermIdle_def)
  have h2: "pendingSignal sigintIdle = Some Interrupt"
    by (simp add: sigintIdle_def)
  have h3: "shutdownResult sigintIdle = None"
    by (simp add: sigintIdle_def sigtermIdle_def)
  have h4: "Address testServer = ''0.0.0.0:4446''"
    by (simp add: testServer_def newServer_def)
  have h5: "ShutdownInFlightTimeout (Timeout testServer) = 3 * Second"
    by (simp add: testServer_def newServer_def defaultTimeout_def)
  from Start_resets_consumed_signal [OF h1 h2, of testServer world0]
  obtain r w' where run: "Start testServer sigintIdle world0 = Some (r, w')"
    and ev: "take 6 (run_events world0 w') =
         [EvListenAndServe (Address testServer), EvNotify [Interrupt, SIGTERM], EvRecvSignal Interrupt,
          EvReset Interrupt, EvSetKeepAlivesEnabled False,
          EvShutdown (ShutdownInFlightTimeout (Timeout testServer)) (shutdownResult sigintIdle)]"
    and d1: "deliver w' Interrupt = ProcessExits"
    and d2: "\<forall>sig'. sig' \<noteq> Interrupt \<longrightarrow> deliver w' sig' = SentToChannel"
    by blast
  from d2 have d3: "deliver w' SIGTERM = SentToChannel" by simp
  show ?thesis
    using h1 h2 run ev d1 d3 by (simp add: h3 h4 h5)
qed

section \<open>What a run releases\<close>

text \<open>
  C8, as stated, fails: the port is taken, the listener's error is returned at once; the run
  has called neither \<^verbatim>\<open>Close\<close> nor \<^verbatim>\<open>Shutdown\<close> nor \<^verbatim>\<open>signal.Reset\<close>, and both
  signals are still relayed when it returns.
\<close>

theorem Start_listener_error_releases_nothing:
  "select bindFails = Some CaseServerErr
   \<and> returned (Start testServer bindFails world0) = Some addressInUse
   \<and> run_events world0 (worldAfter world0 (Start testServer bindFails world0)) =
       [EvListenAndServe ''0.0.0.0:4446'', EvNotify [Interrupt, SIGTERM],
        EvRecvServerErr (Some addressInUse)]
   \<and> relayed (worldAfter world0 (Start testServer bindFails world0)) = {Interrupt, SIGTERM}"
  by (simp add: returned_def worldAfter_def run_events_def run_trace_def Start_listener
      select_def bindFails_def world0_def testServer_def newServer_def)

text \<open>
  C8, amended: a run that returns on the listener case has only launched the listener,
  subscribed to the two signals and received the listener's value: both signals are still
  relayed. A run that returns on the signal case has, before returning, reset the signal it
  received (the other one stays relayed) and called \<^verbatim>\<open>Shutdown\<close>, followed by
  \<^verbatim>\<open>Close\<close> exactly when \<^verbatim>\<open>Shutdown\<close> returned an error.
\<close>

theorem Start_release_steps:
  assumes "Start s e w = Some (r, w')"
  shows "(select e = Some CaseServerErr \<longrightarrow>
            run_events w w' =
              [EvListenAndServe (Address s), EvNotify [Interrupt, SIGTERM], EvRecvServerErr r]
            \<and> relayed w' = relayed w \<union> {Interrupt, SIGTERM})
     \<and> (select e = Some CaseOsSignals \<longrightarrow>
            (\<exists>sig. pendingSignal e = Some sig
               \<and> relayed w' = (relayed w \<union> {Interrupt, SIGTERM}) - {sig}
               \<and> take 6 (run_events w w') =
                   [EvListenAndServe (Address s), EvNotify [Interrupt, SIGTERM], EvRecvSignal sig,
                    EvReset sig, EvSetKeepAlivesEnabled False,
                    EvShutdown (ShutdownInFlightTimeout (Timeout s)) (shutdownResult e)])
            \<and> (shutdownResult e \<noteq> None \<longrightarrow>
                  drop 6 (run_events w w') = [EvClose (closeResult e)])
            \<and> (shutdownResult e = None \<longrightarrow> \<not> list_ex isClose (run_events w w')))"
proof (intro conjI impI)
  assume sel: "select e = Some CaseServerErr"
  from assms show "run_events w w' =
      [EvListenAndServe (Address s), EvNotify [Interrupt, SIGTERM], EvRecvServerErr r]"
    by (auto simp add: Start_listener [OF sel] run_events_def run_trace_def)
  from assms show "relayed w' = relayed w \<union> {Interrupt, SIGTERM}"
    by (auto simp add: Start_listener [OF sel])
next
  assume sel: "select e = Some CaseOsSignals"
  then obtain sig where sig: "pendingSignal e = Some sig"
    using select_signal by blast
  show "\<exists>sig. pendingSignal e = Some sig
      \<and> relayed w' = (relayed w \<union> {Interrupt, SIGTERM}) - {sig}
      \<and> take 6 (run_events w w') =
          [EvListenAndServe (Address s), EvNotify [Interrupt, SIGTERM], EvRecvSignal sig,
           EvReset sig, EvSetKeepAlivesEnabled False,
           EvShutdown (ShutdownInFlightTimeout (Timeout s)) (shutdownResult e)]"
  proof (cases "shutdownResult e")
    case None
    with assms sig show ?thesis
      by (auto simp add: Start_clean [OF sel sig None] run_events_def run_trace_def)
  next
    case (Some err)
    with assms sig show ?thesis
      by (auto simp add: Start_failed [OF sel sig Some] run_events_def run_trace_def)
  qed
  {
    assume "shutdownResult e \<noteq> None"
    then obtain err where err: "shutdownResult e = Some err" by blast
    from assms show "drop 6 (run_events w w') = [EvClose (closeResult e)]"
      by (auto simp add: Start_failed [OF sel sig err] run_events_def run_trace_def)
  }
  {
    assume none: "shutdownResult e = None"
    from assms show "\<not> list_ex isClose (run_events w w')"
      by (auto simp add: Start_clean [OF sel sig none] run_events_def run_trace_def)
  }
qed

theorem Start_release_steps_witness:
  "Start testServer drainTimesOut world0 =
     Some (Some DeadlineExceeded, worldAfter world0 (Start testServer drainTimesOut world0))
   \<and> select drainTimesOut = Some CaseOsSignals
   \<and> shutdownResult drainTimesOut \<noteq> None
   \<and> relayed (worldAfter world0 (Start testServer drainTimesOut world0)) = {Interrupt}
   \<and> drop 6 (run_events world0 (worldAfter world0 (Start testServer drainTimesOut world0))) =
       [EvClose None]"
proof -
  let ?w' = "worldAfter world0 (Start testServer drainTimesOut world0)"
  have sel: "select drainTimesOut = Some CaseOsSignals"
    by (simp add: select_def drainTimesOut_def sigtermIdle_def)
  have ps: "pendingSignal drainTimesOut = Some SIGTERM"
    by (simp add: drainTimesOut_def sigtermIdle_def)
  have sd: "shutdownResult drainTimesOut = Some DeadlineExceeded"
    by (simp add: drainTimesOut_def)
  have cr: "closeResult drainTimesOut = None"
    by (simp add: drainTimesOut_def sigtermIdle_def)
  have run: "Start testServer drainTimesOut world0 = Some (Some DeadlineExceeded, ?w')"
    by (simp add: worldAfter_def Start_failed [OF sel ps sd] cr)
  have sr: "shutdownResult drainTimesOut \<noteq> None"
    by (simp add: drainTimesOut_def)
  have r0: "relayed world0 = {}"
    by (simp add: world0_def)
  show ?thesis
    using Start_release_steps [OF run] sel sr ps cr r0 run by auto
qed

section \<open>The per-request deadline\<close>

text \<open>
  C6, as stated, fails on the status: the \<^verbatim>\<open>/slow\<close> request of the package's test, three
  seconds against a request budget of one, is answered with 503, not 408.
\<close>

theorem slow_request_status_is_503:
  "finishedAt slowHandler = Some 3000000000
   \<and> sint (RequestTimeout (Timeout testServer)) < 3000000000
   \<and> statusCode (ServeHTTP (Start_server testServer) slowHandler) = 503
   \<and> statusCode (ServeHTTP (Start_server testServer) slowHandler) \<noteq> StatusRequestTimeout"
  by (simp add: ServeHTTP_def Start_server_def TimeoutHandler_def slowHandler_def
      testServer_def newServer_def defaultRequestTimeout_def Second_def
      StatusServiceUnavailable_def StatusRequestTimeout_def)

text \<open>
  C6, amended: a request whose handler runs longer than the request budget gets the one
  response the wrapper writes: status 503 Service Unavailable and the fixed body
  "failed to finish request, timed out" (the text of \<open>ErrRequesTimeout\<close>, whose own 408
  is not used); whatever the handler writes, before or after the deadline, changes nothing.
\<close>

theorem ServeHTTP_request_timeout:
  assumes "finishedAt h = Some t" and "sint (RequestTimeout (Timeout s)) < t"
  shows "ServeHTTP (Start_server s) h =
           \<lparr>statusCode = StatusServiceUnavailable, body = ''failed to finish request, timed out''\<rparr>
     \<and> ServeHTTP (Start_server s) (h\<lparr>ops := ops h @ later\<rparr>) = ServeHTTP (Start_server s) h"
  using assms
  by (simp add: ServeHTTP_def Start_server_def TimeoutHandler_def ErrRequesTimeout_def
      NewFailedToError_def)

theorem ServeHTTP_request_timeout_witness:
  "finishedAt slowHandler = Some 3000000000
   \<and> sint (RequestTimeout (Timeout testServer)) < 3000000000
   \<and> ServeHTTP (Start_server testServer) slowHandler =
        \<lparr>statusCode = 503, body = ''failed to finish request, timed out''\<rparr>
   \<and> ServeHTTP (Start_server testServer) (slowHandler\<lparr>ops := ops slowHandler @ [Write ''late'']\<rparr>) =
        ServeHTTP (Start_server testServer) slowHandler"
proof -
  have h1: "finishedAt slowHandler = Some 3000000000"
    by (simp add: slowHandler_def)
  have h2: "sint (RequestTimeout (Timeout testServer)) < 3000000000"
    by (simp add: testServer_def newServer_def defaultRequestTimeout_def Second_def)
  show ?thesis
    using h1 h2 ServeHTTP_request_timeout [OF h1 h2, of "[Write ''late'']"]
    by (simp add: StatusServiceUnavailable_def)
qed

section \<open>Construction\<close>

text \<open>Options are applied left to right; what every option keeps, the loop keeps.\<close>

lemma processOptions_append:
  "processOptions (xs @ ys) s = processOptions ys (processOptions xs s)"
  by (induction xs arbitrary: s) simp_all

lemma processOptions_keeps:
  "(\<forall>later \<in> set ys. \<forall>x. P x \<longrightarrow> P (later x)) \<Longrightarrow> P x \<Longrightarrow> P (processOptions ys x)"
  by (induction ys arbitrary: x) simp_all

lemma basicOptions_result:
  "processOptions basicOptions s =
     WithoutPreLoadedHandlers (WithoutLogging (WithoutTelemetry (WithoutMetrics s)))"
  by (simp add: basicOptions_def)

text \<open>The budget passes exactly when its five durations are positive and request is below read.\<close>

lemma validateTimeout_Nil:
  "validateTimeout b = [] \<longleftrightarrow> positiveBudget b \<and> sint (RequestTimeout b) < sint (ReadTimeout b)"
  by (auto simp add: validateTimeout_def positive_def positiveBudget_def)

lemma validateTimeout_positive:
  "positiveBudget b \<Longrightarrow>
     validateTimeout b =
       (if sint (RequestTimeout b) < sint (ReadTimeout b) then []
        else [(''RequestTimeout'', ''ltfield'')])"
  by (simp add: validateTimeout_def positive_def positiveBudget_def)

text \<open>
  With the rest of the configuration accepted, \<^verbatim>\<open>New\<close> builds the server from what the
  options left exactly when the budget passes, and fails with the budget's errors otherwise.
\<close>

lemma New_result:
  assumes "restAccepted pf (processOptions opts (newServer name address))"
  shows "fst (New pf name address opts w) =
           (if validateTimeout (Timeout (processOptions opts (newServer name address))) = []
            then Built (assembled name (processOptions opts (newServer name address)))
            else Failed (ValidationErrors
                   (validateTimeout (Timeout (processOptions opts (newServer name address))))))"
  using assms
  by (auto simp add: New_def restAccepted_def Let_def setupTelemetry_def telemetry_NewDefault_def
      ValidateStruct_def finishNew_def assembled_def router_Use_def addHandler_def
      split: option.splits sum.splits prod.splits if_splits)

text \<open>Whatever \<^verbatim>\<open>New\<close> builds is assembled from what the options left; it never listens.\<close>

lemma New_built:
  "fst (New pf name address opts w) = Built srv \<Longrightarrow>
     srv = assembled name (processOptions opts (newServer name address))"
  by (auto simp add: New_def Let_def setupTelemetry_def telemetry_NewDefault_def
      finishNew_def assembled_def router_Use_def addHandler_def
      split: option.splits sum.splits prod.splits if_splits)

lemma New_never_listens:
  "\<not> list_ex isListen (run_events w (snd (New pf name address opts w)))"
  by (auto simp add: New_def Let_def setupTelemetry_def telemetry_NewDefault_def
      finishNew_def emit_def run_events_def run_trace_def
      split: option.splits sum.splits prod.splits if_splits)

text \<open>\<^verbatim>\<open>WithTimeout\<close> touches the budget only.\<close>

lemma restAccepted_WithTimeout:
  "restAccepted pf (WithTimeout rd rq fl tk wr s) = restAccepted pf s"
  by (simp add: restAccepted_def WithTimeout_def)

lemma restAccepted_testServer:
  "restAccepted okPlatform (newServer ''test-server'' ''0.0.0.0:4446'')"
  by (simp add: restAccepted_def okPlatform_def newServer_def validateLogging_def
      validateLevel_def levelNames_def)

text \<open>
  C7: with the rest of the configuration accepted, for every budget of positive durations
  with request below read \<^verbatim>\<open>New\<close> builds a server with that budget; for every budget
  with request at least read \<^verbatim>\<open>New\<close> fails with the validator's error, which names
  \<open>RequestTimeout\<close> (on \<open>ltfield\<close> alone when the five durations are positive), and it
  has not launched the listener.
\<close>

theorem New_checks_request_lt_read:
  assumes "restAccepted pf (processOptions opts (newServer name address))"
    and "Timeout (processOptions opts (newServer name address)) = b"
  shows "(positiveBudget b \<and> sint (RequestTimeout b) < sint (ReadTimeout b) \<longrightarrow>
            (\<exists>srv. fst (New pf name address opts w) = Built srv \<and> Timeout srv = b))
     \<and> (sint (ReadTimeout b) \<le> sint (RequestTimeout b) \<longrightarrow>
            (\<exists>fes. fst (New pf name address opts w) = Failed (ValidationErrors fes)
               \<and> ''RequestTimeout'' \<in> fst ` set fes
               \<and> (positiveBudget b \<longrightarrow> fes = [(''RequestTimeout'', ''ltfield'')]))
            \<and> \<not> list_ex isListen (run_events w (snd (New pf name address opts w))))"
proof (intro conjI impI)
  assume ok: "positiveBudget b \<and> sint (RequestTimeout b) < sint (ReadTimeout b)"
  then have "validateTimeout b = []"
    by (simp add: validateTimeout_Nil)
  then show "\<exists>srv. fst (New pf name address opts w) = Built srv \<and> Timeout srv = b"
    using assms(2) by (simp add: New_result [OF assms(1)] assembled_def)
next
  assume ge: "sint (ReadTimeout b) \<le> sint (RequestTimeout b)"
  then have ne: "validateTimeout b \<noteq> []"
    by (simp add: validateTimeout_Nil)
  have listed: "''RequestTimeout'' \<in> fst ` set (validateTimeout b)"
    using ge by (simp add: validateTimeout_def)
  have "fst (New pf name address opts w) = Failed (ValidationErrors (validateTimeout b))"
    using ne assms(2) by (simp add: New_result [OF assms(1)])
  then show "\<exists>fes. fst (New pf name address opts w) = Failed (ValidationErrors fes)
      \<and> ''RequestTimeout'' \<in> fst ` set fes
      \<and> (positiveBudget b \<longrightarrow> fes = [(''RequestTimeout'', ''ltfield'')])"
    using listed ge by (simp add: validateTimeout_positive)
  show "\<not> list_ex isListen (run_events w (snd (New pf name address opts w)))"
    by (rule New_never_listens)
qed

theorem New_checks_request_lt_read_witness:
  "restAccepted okPlatform (processOptions
       [WithTimeout (3 * Second) (1 * Second) (3 * Second) (10 * Second) (3 * Second)]
       (newServer ''test-server'' ''0.0.0.0:4446''))
   \<and> sint (1 * Second :: Duration) < sint (3 * Second :: Duration)
   \<and> (\<exists>srv. fst (New okPlatform ''test-server'' ''0.0.0.0:4446''
          [WithTimeout (3 * Second) (1 * Second) (3 * Second) (10 * Second) (3 * Second)] world0) = Built srv
        \<and> RequestTimeout (Timeout srv) = 1 * Second \<and> ReadTimeout (Timeout srv) = 3 * Second)
   \<and> restAccepted okPlatform (processOptions
       [WithTimeout (3 * Second) (3 * Second) (3 * Second) (10 * Second) (3 * Second)]
       (newServer ''test-server'' ''0.0.0.0:4446''))
   \<and> sint (3 * Second :: Duration) \<le> sint (3 * Second :: Duration)
   \<and> fst (New okPlatform ''test-server'' ''0.0.0.0:4446''
          [WithTimeout (3 * Second) (3 * Second) (3 * Second) (10 * Second) (3 * Second)] world0) =
        Failed (ValidationErrors [(''RequestTimeout'', ''ltfield'')])"
proof -
  let ?good = "[WithTimeout (3 * Second) (1 * Second) (3 * Second) (10 * Second) (3 * Second)]"
  let ?bad = "[WithTimeout (3 * Second) (3 * Second) (3 * Second) (10 * Second) (3 * Second)]"
  let ?s0 = "newServer ''test-server'' ''0.0.0.0:4446''"
  let ?gb = "\<lparr>ReadTimeout = 3 * Second, RequestTimeout = 1 * Second,
       ShutdownInFlightTimeout = 3 * Second, ShutdownTaskTimeout = 10 * Second,
       WriteTimeout = 3 * Second\<rparr>"
  let ?bb = "\<lparr>ReadTimeout = 3 * Second, RequestTimeout = 3 * Second,
       ShutdownInFlightTimeout = 3 * Second, ShutdownTaskTimeout = 10 * Second,
       WriteTimeout = 3 * Second\<rparr>"
  have g1: "restAccepted okPlatform (processOptions ?good ?s0)"
    by (simp add: restAccepted_WithTimeout restAccepted_testServer)
  have g2: "Timeout (processOptions ?good ?s0) = ?gb"
    by (simp add: WithTimeout_def newServer_def)
  have g3: "positiveBudget ?gb"
    by (simp add: positiveBudget_def Second_def)
  have b1: "restAccepted okPlatform (processOptions ?bad ?s0)"
    by (simp add: restAccepted_WithTimeout restAccepted_testServer)
  have b2: "Timeout (processOptions ?bad ?s0) = ?bb"
    by (simp add: WithTimeout_def newServer_def)
  have b3: "positiveBudget ?bb"
    by (simp add: positiveBudget_def Second_def)
  have lt: "sint (1 * Second :: Duration) < sint (3 * Second :: Duration)"
    by (simp add: Second_def)
  from New_checks_request_lt_read [OF g1 g2, of world0] lt g3
  have good: "\<exists>srv. fst (New okPlatform ''test-server'' ''0.0.0.0:4446'' ?good world0) = Built srv
        \<and> RequestTimeout (Timeout srv) = 1 * Second \<and> ReadTimeout (Timeout srv) = 3 * Second"
    by auto
  from New_checks_request_lt_read [OF b1 b2, of world0] b3
  have bad: "fst (New okPlatform ''test-server'' ''0.0.0.0:4446'' ?bad world0) =
        Failed (ValidationErrors [(''RequestTimeout'', ''ltfield'')])"
    by auto
  show ?thesis
    using g1 b1 lt good bad by simp
qed

text \<open>
  C9: with the rest of the configuration accepted, a budget with a zero duration in read,
  request, in-flight, task or write makes \<^verbatim>\<open>New\<close> fail with the validator's error, which
  names every zero field, and the listener is not launched; a server is built only from a
  budget of five positive durations.
\<close>

theorem New_rejects_zero_duration:
  assumes "restAccepted pf (processOptions opts (newServer name address))"
    and "Timeout (processOptions opts (newServer name address)) = b"
  shows "(ReadTimeout b = 0 \<or> RequestTimeout b = 0 \<or> ShutdownInFlightTimeout b = 0
            \<or> ShutdownTaskTimeout b = 0 \<or> WriteTimeout b = 0 \<longrightarrow>
            (\<exists>fes. fst (New pf name address opts w) = Failed (ValidationErrors fes)
               \<and> (ReadTimeout b = 0 \<longrightarrow> (''ReadTimeout'', ''gt'') \<in> set fes)
               \<and> (RequestTimeout b = 0 \<longrightarrow> (''RequestTimeout'', ''gt'') \<in> set fes)
               \<and> (ShutdownInFlightTimeout b = 0 \<longrightarrow> (''ShutdownInFlightTimeout'', ''gt'') \<in> set fes)
               \<and> (ShutdownTaskTimeout b = 0 \<longrightarrow> (''ShutdownTaskTimeout'', ''gt'') \<in> set fes)
               \<and> (WriteTimeout b = 0 \<longrightarrow> (''WriteTimeout'', ''gt'') \<in> set fes))
            \<and> \<not> list_ex isListen (run_events w (snd (New pf name address opts w))))
     \<and> (isBuilt (fst (New pf name address opts w)) \<longrightarrow> positiveBudget b)"
proof (intro conjI impI)
  assume zero: "ReadTimeout b = 0 \<or> RequestTimeout b = 0 \<or> ShutdownInFlightTimeout b = 0
            \<or> ShutdownTaskTimeout b = 0 \<or> WriteTimeout b = 0"
  then have "\<not> positiveBudget b"
    by (auto simp add: positiveBudget_def)
  then have ne: "validateTimeout b \<noteq> []"
    by (simp add: validateTimeout_Nil)
  have failed: "fst (New pf name address opts w) = Failed (ValidationErrors (validateTimeout b))"
    using ne assms(2) by (simp add: New_result [OF assms(1)])
  show "\<exists>fes. fst (New pf name address opts w) = Failed (ValidationErrors fes)
               \<and> (ReadTimeout b = 0 \<longrightarrow> (''ReadTimeout'', ''gt'') \<in> set fes)
               \<and> (RequestTimeout b = 0 \<longrightarrow> (''RequestTimeout'', ''gt'') \<in> set fes)
               \<and> (ShutdownInFlightTimeout b = 0 \<longrightarrow> (''ShutdownInFlightTimeout'', ''gt'') \<in> set fes)
               \<and> (ShutdownTaskTimeout b = 0 \<longrightarrow> (''ShutdownTaskTimeout'', ''gt'') \<in> set fes)
               \<and> (WriteTimeout b = 0 \<longrightarrow> (''WriteTimeout'', ''gt'') \<in> set fes)"
    by (simp add: failed validateTimeout_def positive_def)
  show "\<not> list_ex isListen (run_events w (snd (New pf name address opts w)))"
    by (rule New_never_listens)
next
  assume "isBuilt (fst (New pf name address opts w))"
  then show "positiveBudget b"
    using assms(2) by (simp add: New_result [OF assms(1)] validateTimeout_Nil split: if_splits)
qed

theorem New_rejects_zero_duration_witness:
  "restAccepted okPlatform (processOptions
       [WithTimeout (3 * Second) (1 * Second) (3 * Second) 0 (3 * Second)]
       (newServer ''test-server'' ''0.0.0.0:4446''))
   \<and> fst (New okPlatform ''test-server'' ''0.0.0.0:4446''
          [WithTimeout (3 * Second) (1 * Second) (3 * Second) 0 (3 * Second)] world0) =
        Failed (ValidationErrors [(''ShutdownTaskTimeout'', ''gt'')])
   \<and> (\<exists>fes. fst (New okPlatform ''test-server'' ''0.0.0.0:4446''
          [WithTimeout (3 * Second) (1 * Second) (3 * Second) 0 (3 * Second)] world0) =
        Failed (ValidationErrors fes) \<and> (''ShutdownTaskTimeout'', ''gt'') \<in> set fes)"
proof -
  let ?opts = "[WithTimeout (3 * Second) (1 * Second) (3 * Second) 0 (3 * Second)]"
  let ?s0 = "newServer ''test-server'' ''0.0.0.0:4446''"
  let ?b = "\<lparr>ReadTimeout = 3 * Second, RequestTimeout = 1 * Second,
       ShutdownInFlightTimeout = 3 * Second, ShutdownTaskTimeout = 0,
       WriteTimeout = 3 * Second\<rparr>"
  have a1: "restAccepted okPlatform (processOptions ?opts ?s0)"
    by (simp add: restAccepted_WithTimeout restAccepted_testServer)
  have a2: "Timeout (processOptions ?opts ?s0) = ?b"
    by (simp add: WithTimeout_def newServer_def)
  from New_rejects_zero_duration [OF a1 a2, of world0]
  have listed: "\<exists>fes. fst (New okPlatform ''test-server'' ''0.0.0.0:4446'' ?opts world0) =
        Failed (ValidationErrors fes) \<and> (''ShutdownTaskTimeout'', ''gt'') \<in> set fes"
    by auto
  have exact: "fst (New okPlatform ''test-server'' ''0.0.0.0:4446'' ?opts world0) =
        Failed (ValidationErrors [(''ShutdownTaskTimeout'', ''gt'')])"
  proof -
    have v: "validateTimeout ?b = [(''ShutdownTaskTimeout'', ''gt'')]"
      by (simp add: validateTimeout_def positive_def Second_def)
    show ?thesis
      by (simp only: New_result [OF a1] a2 v) simp
  qed
  show ?thesis
    using a1 listed exact by simp
qed

text \<open>
  C10, as stated, fails: \<^verbatim>\<open>NewBasic\<close> with the user's \<^verbatim>\<open>WithTelemetry\<close> builds a
  server that holds the user's telemetry value, yet telemetry is still disabled and its
  middleware is not installed: the option does not undo the default \<^verbatim>\<open>WithoutTelemetry\<close>.
\<close>

theorem NewBasic_WithTelemetry_stays_disabled:
  "map_option EnableTelemetry
     (builtServer (fst (NewBasic okPlatform ''test-server'' ''0.0.0.0:4446''
        [WithTelemetry ''mine''] world0))) = Some False
   \<and> map_option telemetry
     (builtServer (fst (NewBasic okPlatform ''test-server'' ''0.0.0.0:4446''
        [WithTelemetry ''mine''] world0))) = Some (Some ''mine'')
   \<and> map_option (\<lambda>srv. middlewares (router srv))
     (builtServer (fst (NewBasic okPlatform ''test-server'' ''0.0.0.0:4446''
        [WithTelemetry ''mine''] world0))) = Some [''logger'']"
proof -
  let ?s = "processOptions (basicOptions @ [WithTelemetry ''mine''])
      (newServer ''test-server'' ''0.0.0.0:4446'')"
  have acc: "restAccepted okPlatform ?s"
    by (simp add: restAccepted_def okPlatform_def newServer_def validateLogging_def
      validateLevel_def levelNames_def basicOptions_def WithoutMetrics_def WithoutTelemetry_def
      WithoutLogging_def WithoutPreLoadedHandlers_def WithTelemetry_def)
  have v: "validateTimeout (Timeout ?s) = []"
    by (simp add: validateTimeout_def positive_def newServer_def basicOptions_def
      WithoutMetrics_def WithoutTelemetry_def WithoutLogging_def WithoutPreLoadedHandlers_def
      WithTelemetry_def defaultTimeout_def defaultRequestTimeout_def
      defaultShutdownTaskTimeout_def Second_def)
  have built: "fst (NewBasic okPlatform ''test-server'' ''0.0.0.0:4446''
        [WithTelemetry ''mine''] world0) = Built (assembled ''test-server'' ?s)"
    unfolding NewBasic_def Let_def by (simp only: New_result [OF acc] v) simp
  show ?thesis
    by (simp add: built assembled_def newServer_def basicOptions_def
      WithoutMetrics_def WithoutTelemetry_def WithoutLogging_def WithoutPreLoadedHandlers_def
      WithTelemetry_def)
qed

text \<open>
  C10, amended: \<^verbatim>\<open>NewBasic\<close> applies its four disabling defaults, then the user's
  options, strictly in order, and the server it builds is assembled from the configuration
  \<open>s\<close> this leaves (and is built whenever that configuration is accepted). So what a
  user's option writes, and the user's later options keep, holds of \<open>s\<close>: it overrides what
  a default wrote to the same field. A default stands where no user option writes its field:
  telemetry stays disabled unless an option writes \<open>EnableTelemetry\<close>.
\<close>

theorem NewBasic_defaults_then_user_options:
  assumes "s = processOptions opts
            (WithoutPreLoadedHandlers (WithoutLogging (WithoutTelemetry (WithoutMetrics
               (newServer name address)))))"
  shows "(restAccepted pf s \<and> validateTimeout (Timeout s) = [] \<longrightarrow>
            fst (NewBasic pf name address opts w) = Built (assembled name s))
     \<and> (\<forall>srv. fst (NewBasic pf name address opts w) = Built srv \<longrightarrow>
            srv = assembled name s
            \<and> EnableMetrics srv = EnableMetrics s \<and> EnableTelemetry srv = EnableTelemetry s
            \<and> Logging srv = Logging s \<and> Timeout srv = Timeout s
            \<and> preLoadedHandlers srv = preLoadedHandlers s)
     \<and> (\<forall>P before opt after.
            opts = before @ opt # after
            \<and> (\<forall>x. P (opt x))
            \<and> (\<forall>later \<in> set after. \<forall>x. P x \<longrightarrow> P (later x))
            \<longrightarrow> P s)
     \<and> ((\<forall>opt \<in> set opts. \<forall>x. EnableTelemetry (opt x) = EnableTelemetry x)
            \<longrightarrow> \<not> EnableTelemetry s)"
proof -
  have s: "s = processOptions (basicOptions @ opts) (newServer name address)"
    by (simp add: assms processOptions_append basicOptions_result)
  have one: "restAccepted pf s \<and> validateTimeout (Timeout s) = [] \<longrightarrow>
      fst (NewBasic pf name address opts w) = Built (assembled name s)"
  proof
    assume ok: "restAccepted pf s \<and> validateTimeout (Timeout s) = []"
    then have acc: "restAccepted pf (processOptions (basicOptions @ opts) (newServer name address))"
      by (simp add: s)
    from ok show "fst (NewBasic pf name address opts w) = Built (assembled name s)"
      unfolding NewBasic_def Let_def by (simp add: New_result [OF acc] s)
  qed
  have two: "\<forall>srv. fst (NewBasic pf name address opts w) = Built srv \<longrightarrow>
            srv = assembled name s
            \<and> EnableMetrics srv = EnableMetrics s \<and> EnableTelemetry srv = EnableTelemetry s
            \<and> Logging srv = Logging s \<and> Timeout srv = Timeout s
            \<and> preLoadedHandlers srv = preLoadedHandlers s"
  proof (intro allI impI)
    fix srv
    assume "fst (NewBasic pf name address opts w) = Built srv"
    then have "fst (New pf name address (basicOptions @ opts) w) = Built srv"
      by (simp add: NewBasic_def)
    then have "srv = assembled name s"
      using New_built s by simp
    then show "srv = assembled name s
            \<and> EnableMetrics srv = EnableMetrics s \<and> EnableTelemetry srv = EnableTelemetry s
            \<and> Logging srv = Logging s \<and> Timeout srv = Timeout s
            \<and> preLoadedHandlers srv = preLoadedHandlers s"
      by (simp add: assembled_def)
  qed
  have three: "\<forall>P before opt after.
            opts = before @ opt # after
            \<and> (\<forall>x. P (opt x))
            \<and> (\<forall>later \<in> set after. \<forall>x. P x \<longrightarrow> P (later x))
            \<longrightarrow> P s"
  proof (intro allI impI)
    fix P :: "Server \<Rightarrow> bool" and before opt after
    assume h: "opts = before @ opt # after
         \<and> (\<forall>x. P (opt x))
         \<and> (\<forall>later \<in> set after. \<forall>x. P x \<longrightarrow> P (later x))"
    from h have here: "P (opt (processOptions (basicOptions @ before) (newServer name address)))"
      by simp
    from h have rest: "\<forall>later \<in> set after. \<forall>x. P x \<longrightarrow> P (later x)"
      by simp
    have "P (processOptions after (opt (processOptions (basicOptions @ before) (newServer name address))))"
      using processOptions_keeps [OF rest here] .
    with h show "P s"
      by (simp add: s processOptions_append)
  qed
  have four: "(\<forall>opt \<in> set opts. \<forall>x. EnableTelemetry (opt x) = EnableTelemetry x)
            \<longrightarrow> \<not> EnableTelemetry s"
  proof
    assume "\<forall>opt \<in> set opts. \<forall>x. EnableTelemetry (opt x) = EnableTelemetry x"
    then have rest: "\<forall>later \<in> set opts. \<forall>x. \<not> EnableTelemetry x \<longrightarrow> \<not> EnableTelemetry (later x)"
      by simp
    have here: "\<not> EnableTelemetry (WithoutPreLoadedHandlers (WithoutLogging (WithoutTelemetry
        (WithoutMetrics (newServer name address)))))"
      by (simp add: WithoutPreLoadedHandlers_def WithoutLogging_def WithoutTelemetry_def)
    show "\<not> EnableTelemetry s"
      unfolding assms
      using processOptions_keeps [where P = "\<lambda>x. \<not> EnableTelemetry x", OF rest here] .
  qed
  from one two three four show ?thesis
    by (intro conjI)
qed

theorem NewBasic_defaults_then_user_options_witness:
  "fst (NewBasic okPlatform ''test-server'' ''0.0.0.0:4446''
      [WithLoggingOptions ''debug'' ''info'' [], WithTelemetry ''mine''] world0) =
     Built (assembled ''test-server''
       (processOptions [WithLoggingOptions ''debug'' ''info'' [], WithTelemetry ''mine'']
          (WithoutPreLoadedHandlers (WithoutLogging (WithoutTelemetry (WithoutMetrics
             (newServer ''test-server'' ''0.0.0.0:4446'')))))))
   \<and> ConsoleLevel (Logging (WithoutPreLoadedHandlers (WithoutLogging (WithoutTelemetry
        (WithoutMetrics (newServer ''test-server'' ''0.0.0.0:4446'')))))) = ''none''
   \<and> ConsoleLevel (Logging (assembled ''test-server''
       (processOptions [WithLoggingOptions ''debug'' ''info'' [], WithTelemetry ''mine'']
          (WithoutPreLoadedHandlers (WithoutLogging (WithoutTelemetry (WithoutMetrics
             (newServer ''test-server'' ''0.0.0.0:4446'')))))))) = ''debug''
   \<and> \<not> EnableTelemetry (assembled ''test-server''
       (processOptions [WithLoggingOptions ''debug'' ''info'' [], WithTelemetry ''mine'']
          (WithoutPreLoadedHandlers (WithoutLogging (WithoutTelemetry (WithoutMetrics
             (newServer ''test-server'' ''0.0.0.0:4446'')))))))"
proof -
  let ?P = "\<lambda>s. ConsoleLevel (Logging s) = ''debug''"
  let ?opt = "WithLoggingOptions ''debug'' ''info'' []"
  let ?after = "[WithTelemetry ''mine'']"
  let ?opts = "[?opt, WithTelemetry ''mine'']"
  let ?d = "WithoutPreLoadedHandlers (WithoutLogging (WithoutTelemetry (WithoutMetrics
             (newServer ''test-server'' ''0.0.0.0:4446''))))"
  let ?s = "processOptions ?opts ?d"
  note inst = NewBasic_defaults_then_user_options
    [of ?s ?opts "''test-server''" "''0.0.0.0:4446''" okPlatform world0, OF refl]
  have acc: "restAccepted okPlatform ?s"
    by (simp add: restAccepted_def okPlatform_def newServer_def validateLogging_def
      validateLevel_def levelNames_def WithoutMetrics_def WithoutTelemetry_def
      WithoutLogging_def WithoutPreLoadedHandlers_def WithTelemetry_def WithLoggingOptions_def)
  have v: "validateTimeout (Timeout ?s) = []"
    by (simp add: validateTimeout_def positive_def newServer_def
      WithoutMetrics_def WithoutTelemetry_def WithoutLogging_def WithoutPreLoadedHandlers_def
      WithTelemetry_def WithLoggingOptions_def defaultTimeout_def defaultRequestTimeout_def
      defaultShutdownTaskTimeout_def Second_def)
  have built: "fst (NewBasic okPlatform ''test-server'' ''0.0.0.0:4446'' ?opts world0) =
      Built (assembled ''test-server'' ?s)"
    by (rule inst [THEN conjunct1, THEN mp]) (intro conjI acc v)
  have before: "ConsoleLevel (Logging ?d) = ''none''"
    by (simp add: WithoutMetrics_def WithoutTelemetry_def WithoutLogging_def
        WithoutPreLoadedHandlers_def newServer_def)
  have split: "?opts = [] @ ?opt # ?after"
    by simp
  have sets: "\<forall>x. ?P (?opt x)"
    by (simp add: WithLoggingOptions_def)
  have keeps: "\<forall>later \<in> set ?after. \<forall>x. ?P x \<longrightarrow> ?P (later x)"
    by (simp add: WithTelemetry_def)
  note third = inst [THEN conjunct2, THEN conjunct2, THEN conjunct1, THEN spec [of _ ?P],
      THEN spec [of _ "[]"], THEN spec [of _ ?opt], THEN spec [of _ ?after]]
  have level: "?P ?s"
    by (rule third [THEN mp]) (intro conjI split sets keeps)
  have quiet: "\<forall>opt \<in> set ?opts. \<forall>x. EnableTelemetry (opt x) = EnableTelemetry x"
    by (simp add: WithLoggingOptions_def WithTelemetry_def)
  have off: "\<not> EnableTelemetry ?s"
    by (rule inst [THEN conjunct2, THEN conjunct2, THEN conjunct2, THEN mp]) (rule quiet)
  from level have level': "ConsoleLevel (Logging (assembled ''test-server'' ?s)) = ''debug''"
    by (simp add: assembled_def)
  from off have off': "\<not> EnableTelemetry (assembled ''test-server'' ?s)"
    by (simp add: assembled_def)
  from built before level' off' show ?thesis
    by (intro conjI)
qed

end
